theory Spec2Isabelle
  imports Main "HOL-Library.Word" "HOL-Library.AList"
begin

unbundle bit_operations_syntax

section \<open>Data model of server.js\<close>

type_synonym byte = "8 word"
type_synonym Buffer = "byte list"

text \<open>
  JavaScript exceptions that the server can meet. The first three are thrown by Node's
  crypto module, \<open>TypeError\<close> by a property read on \<open>undefined\<close>, \<open>ServiceError\<close> is
  the rejection of an AWS SDK promise and \<open>ERR_INVALID_CHAR\<close> is thrown by
  \<open>res.setHeader\<close>.
\<close>

datatype js_error =
    ERR_CRYPTO_UNKNOWN_CIPHER
  | ERR_CRYPTO_INVALID_IV
  | ERR_CRYPTO_INVALID_KEYLEN
  | TypeError string
  | ServiceError string
  | ERR_INVALID_CHAR string

fun message :: "js_error \<Rightarrow> string" where
  "message ERR_CRYPTO_UNKNOWN_CIPHER = ''Unknown cipher''"
| "message ERR_CRYPTO_INVALID_IV = ''Invalid initialization vector''"
| "message ERR_CRYPTO_INVALID_KEYLEN = ''Invalid key length''"
| "message (TypeError m) = m"
| "message (ServiceError m) = m"
| "message (ERR_INVALID_CHAR m) = m"

text \<open>The calls that leave the process: S3, DynamoDB (by table) and CloudWatch Logs.\<close>

datatype ext_call =
    S3Upload
  | S3GetObject
  | S3DeleteObject
  | DynamoPut string
  | DynamoGet string
  | DynamoDelete string
  | DynamoScan string
  | PutLogEvents

text \<open>Values handed to \<open>JSON.stringify\<close>.\<close>

datatype jsval = JStr string | JNum nat | JObj "(string \<times> jsval) list"

record s3_object =
  s3_Body :: Buffer
  s3_ContentType :: string
  s3_Metadata :: "(string \<times> string) list"

record FileRecord =
  fileId :: string
  fileName :: string
  contentType :: string
  size_bytes :: nat
  uploadedAt :: string
  encrypted :: bool

record ActivityLogEntry =
  logId :: string
  timestamp :: string
  action :: string
  details :: string

record log_event =
  ev_message :: string
  ev_timestamp :: nat

text \<open>
  Everything outside the handlers that they read or change: the bucket, the two DynamoDB
  tables, the CloudWatch stream, the operational console, and the positions reached in
  the supplies of random bytes, uuids and clock readings. \<open>calls\<close> records every
  external call issued, reads included, in order.
\<close>

record world =
  bucket :: "(string \<times> s3_object) list"
  fileMetadata :: "(string \<times> FileRecord) list"
  activityLogs :: "(string \<times> ActivityLogEntry) list"
  logStream :: "log_event list"
  console :: "string list"
  calls :: "ext_call list"
  rand_pos :: nat
  uuid_pos :: nat
  clock_pos :: nat

text \<open>
  What the libraries compute and what the outside decides. \<open>kdf password salt i\<close> is
  byte \<open>i\<close> of the scrypt output, \<open>aes256 key block\<close> the AES-256 block encryption,
  \<open>entropy\<close> the bytes \<open>crypto.randomBytes\<close> will deliver, \<open>uuid\<close> the identifiers
  \<open>uuidv4\<close> will deliver, \<open>clock_ms\<close> and \<open>iso\<close> the clock and its ISO rendering,
  and \<open>fault c\<close> the error with which the external call \<open>c\<close> is rejected, if it is.
\<close>

record env =
  kdf :: "string \<Rightarrow> string \<Rightarrow> nat \<Rightarrow> byte"
  aes256 :: "Buffer \<Rightarrow> 128 word \<Rightarrow> 128 word"
  entropy :: "nat \<Rightarrow> byte"
  uuid :: "nat \<Rightarrow> string"
  clock_ms :: "nat \<Rightarrow> nat"
  iso :: "nat \<Rightarrow> string"
  stringify :: "jsval \<Rightarrow> string"
  encodeURIComponent :: "string \<Rightarrow> string"
  fault :: "ext_call \<Rightarrow> string option"

section \<open>Effects: state and exceptions\<close>

text \<open>
  A handler step either returns a value or throws; in both cases the effects made so far
  on the world stay.
\<close>

type_synonym 'a io = "world \<Rightarrow> (js_error + 'a) \<times> world"

definition io_return :: "'a \<Rightarrow> 'a io" where
  "io_return x = (\<lambda>w. (Inr x, w))"

definition io_throw :: "js_error \<Rightarrow> 'a io" where
  "io_throw err = (\<lambda>w. (Inl err, w))"

definition io_bind :: "'a io \<Rightarrow> ('a \<Rightarrow> 'b io) \<Rightarrow> 'b io" where
  "io_bind m f = (\<lambda>w. case m w of (Inl err, w') \<Rightarrow> (Inl err, w') | (Inr x, w') \<Rightarrow> f x w')"

definition io_try :: "'a io \<Rightarrow> (js_error \<Rightarrow> 'a io) \<Rightarrow> 'a io" where
  "io_try m h = (\<lambda>w. case m w of (Inl err, w') \<Rightarrow> h err w' | (Inr x, w') \<Rightarrow> (Inr x, w'))"

definition io_lift :: "js_error + 'a \<Rightarrow> 'a io" where
  "io_lift r = (\<lambda>w. (r, w))"

section \<open>Node's crypto module\<close>

text \<open>\<open>crypto.randomBytes(n)\<close>: the next \<open>n\<close> bytes of the entropy supply.\<close>

definition randomBytes :: "env \<Rightarrow> nat \<Rightarrow> Buffer io" where
  "randomBytes e n =
     (\<lambda>w. (Inr (map (\<lambda>i. entropy e (rand_pos w + i)) [0..<n]), w\<lparr>rand_pos := rand_pos w + n\<rparr>))"

text \<open>\<open>crypto.scryptSync(password, salt, keylen)\<close>: a buffer of \<open>keylen\<close> bytes.\<close>

definition scryptSync :: "env \<Rightarrow> string \<Rightarrow> string \<Rightarrow> nat \<Rightarrow> Buffer" where
  "scryptSync e password salt keylen = map (kdf e password salt) [0..<keylen]"

text \<open>A 16-byte block as a 128-bit big-endian counter, and back.\<close>

definition be_word :: "Buffer \<Rightarrow> 128 word" where
  "be_word bs = foldl (\<lambda>acc b. push_bit 8 acc OR ucast b) 0 bs"

definition be_bytes :: "128 word \<Rightarrow> Buffer" where
  "be_bytes x = map (\<lambda>i. ucast (drop_bit (8 * (15 - i)) x)) [0..<16]"

text \<open>
  The state of a counter-mode cipher object: the key, the next counter block and the
  key-stream bytes of the current block that are not used yet.
\<close>

record cipher =
  c_key :: Buffer
  c_counter :: "128 word"
  c_pending :: Buffer

text \<open>
  \<open>crypto.createCipheriv(algorithm, key, iv)\<close> for the one algorithm the server names.
  Node rejects an initialization vector whose length is not the block length of the
  cipher, then a key whose length is not the key length of the cipher.
\<close>

definition createCipheriv :: "string \<Rightarrow> Buffer \<Rightarrow> Buffer \<Rightarrow> js_error + cipher" where
  "createCipheriv algorithm key iv =
     (if algorithm \<noteq> ''aes-256-ctr'' then Inl ERR_CRYPTO_UNKNOWN_CIPHER
      else if length iv \<noteq> 16 then Inl ERR_CRYPTO_INVALID_IV
      else if length key \<noteq> 32 then Inl ERR_CRYPTO_INVALID_KEYLEN
      else Inr \<lparr>c_key = key, c_counter = be_word iv, c_pending = []\<rparr>)"

text \<open>In counter mode the decipher object is the cipher object: both run the key stream.\<close>

definition createDecipheriv :: "string \<Rightarrow> Buffer \<Rightarrow> Buffer \<Rightarrow> js_error + cipher" where
  "createDecipheriv algorithm key iv = createCipheriv algorithm key iv"

text \<open>
  The next key-stream byte. When the current block is used up, the counter block is
  encrypted under the key, which gives the 16 bytes of the next block, and the counter is
  incremented (modulo \<open>2 ^ 128\<close>).
\<close>

definition next_keystream :: "env \<Rightarrow> cipher \<Rightarrow> byte \<times> cipher" where
  "next_keystream e c =
     (case c_pending c of
        [] \<Rightarrow>
          (let block = be_bytes (aes256 e (c_key c) (c_counter c))
           in (hd block, c\<lparr>c_counter := c_counter c + 1, c_pending := tl block\<rparr>))
      | k # ks \<Rightarrow> (k, c\<lparr>c_pending := ks\<rparr>))"

text \<open>\<open>cipher.update(data)\<close>: every byte is xored with the next key-stream byte.\<close>

fun cipher_update :: "env \<Rightarrow> cipher \<Rightarrow> Buffer \<Rightarrow> Buffer \<times> cipher" where
  "cipher_update e c [] = ([], c)"
| "cipher_update e c (b # bs) =
     (case next_keystream e c of (k, c') \<Rightarrow>
        (case cipher_update e c' bs of (out, c'') \<Rightarrow> ((b XOR k) # out, c'')))"

text \<open>\<open>cipher.final()\<close>: a stream mode holds nothing back.\<close>

definition cipher_final :: "cipher \<Rightarrow> Buffer" where
  "cipher_final c = []"

section \<open>The cipher codec\<close>

definition encryptFile :: "env \<Rightarrow> Buffer \<Rightarrow> string \<Rightarrow> Buffer io" where
  "encryptFile e buffer password =
     (let algorithm = ''aes-256-ctr'';
          key = scryptSync e password ''salt'' 32
      in io_bind (randomBytes e 16) (\<lambda>iv.
         io_bind (io_lift (createCipheriv algorithm key iv)) (\<lambda>cipher.
         case cipher_update e cipher buffer of (out, cipher') \<Rightarrow>
           io_return (concat [iv, out, cipher_final cipher']))))"

definition decryptFile :: "env \<Rightarrow> Buffer \<Rightarrow> string \<Rightarrow> js_error + Buffer" where
  "decryptFile e encryptedBuffer password =
     (let algorithm = ''aes-256-ctr'';
          key = scryptSync e password ''salt'' 32;
          iv = take 16 encryptedBuffer;
          encryptedContent = drop 16 encryptedBuffer
      in case createDecipheriv algorithm key iv of
           Inl err \<Rightarrow> Inl err
         | Inr decipher \<Rightarrow>
             (case cipher_update e decipher encryptedContent of (out, decipher') \<Rightarrow>
                Inr (concat [out, cipher_final decipher'])))"

section \<open>Clock and identifiers\<close>

text \<open>\<open>uuidv4()\<close>: the next identifier of the supply.\<close>

definition uuidv4 :: "env \<Rightarrow> string io" where
  "uuidv4 e = (\<lambda>w. (Inr (uuid e (uuid_pos w)), w\<lparr>uuid_pos := uuid_pos w + 1\<rparr>))"

text \<open>\<open>Date.now()\<close> and \<open>new Date().toISOString()\<close>: each reads the clock once.\<close>

definition Date_now :: "env \<Rightarrow> nat io" where
  "Date_now e = (\<lambda>w. (Inr (clock_ms e (clock_pos w)), w\<lparr>clock_pos := clock_pos w + 1\<rparr>))"

definition new_Date_toISOString :: "env \<Rightarrow> string io" where
  "new_Date_toISOString e = io_bind (Date_now e) (\<lambda>t. io_return (iso e t))"

definition console_error :: "string \<Rightarrow> js_error \<Rightarrow> unit io" where
  "console_error label err =
     (\<lambda>w. (Inr (), w\<lparr>console := console w @ [label @ '' '' @ message err]\<rparr>))"

section \<open>The AWS clients\<close>

text \<open>
  Every call of a client is recorded. A call that the outside rejects has no effect on
  the stores and its promise rejects; otherwise the call has its effect.
\<close>

definition aws_call :: "env \<Rightarrow> ext_call \<Rightarrow> 'a io \<Rightarrow> 'a io" where
  "aws_call e c effect =
     (\<lambda>w. case fault e c of
             Some m \<Rightarrow> (Inl (ServiceError m), w\<lparr>calls := calls w @ [c]\<rparr>)
           | None \<Rightarrow> effect (w\<lparr>calls := calls w @ [c]\<rparr>))"

definition s3_upload :: "env \<Rightarrow> string \<Rightarrow> s3_object \<Rightarrow> unit io" where
  "s3_upload e Key obj =
     aws_call e S3Upload (\<lambda>w. (Inr (), w\<lparr>bucket := AList.update Key obj (bucket w)\<rparr>))"

text \<open>\<open>getObject\<close> of a key that the bucket does not hold rejects (NoSuchKey).\<close>

definition s3_getObject :: "env \<Rightarrow> string \<Rightarrow> s3_object io" where
  "s3_getObject e Key =
     aws_call e S3GetObject
       (\<lambda>w. case map_of (bucket w) Key of
               None \<Rightarrow> (Inl (ServiceError ''The specified key does not exist.''), w)
             | Some obj \<Rightarrow> (Inr obj, w))"

definition s3_deleteObject :: "env \<Rightarrow> string \<Rightarrow> unit io" where
  "s3_deleteObject e Key =
     aws_call e S3DeleteObject (\<lambda>w. (Inr (), w\<lparr>bucket := AList.delete Key (bucket w)\<rparr>))"

definition dynamoDB_put_FileMetadata :: "env \<Rightarrow> FileRecord \<Rightarrow> unit io" where
  "dynamoDB_put_FileMetadata e Item =
     aws_call e (DynamoPut ''FileMetadata'')
       (\<lambda>w. (Inr (), w\<lparr>fileMetadata := AList.update (fileId Item) Item (fileMetadata w)\<rparr>))"

definition dynamoDB_put_ActivityLogs :: "env \<Rightarrow> ActivityLogEntry \<Rightarrow> unit io" where
  "dynamoDB_put_ActivityLogs e Item =
     aws_call e (DynamoPut ''ActivityLogs'')
       (\<lambda>w. (Inr (), w\<lparr>activityLogs := AList.update (logId Item) Item (activityLogs w)\<rparr>))"

text \<open>\<open>get\<close> of a key that the table does not hold resolves with no \<open>Item\<close>.\<close>

definition dynamoDB_get_FileMetadata :: "env \<Rightarrow> string \<Rightarrow> FileRecord option io" where
  "dynamoDB_get_FileMetadata e fid =
     aws_call e (DynamoGet ''FileMetadata'') (\<lambda>w. (Inr (map_of (fileMetadata w) fid), w))"

definition dynamoDB_delete_FileMetadata :: "env \<Rightarrow> string \<Rightarrow> unit io" where
  "dynamoDB_delete_FileMetadata e fid =
     aws_call e (DynamoDelete ''FileMetadata'')
       (\<lambda>w. (Inr (), w\<lparr>fileMetadata := AList.delete fid (fileMetadata w)\<rparr>))"

definition dynamoDB_scan_FileMetadata :: "env \<Rightarrow> FileRecord list io" where
  "dynamoDB_scan_FileMetadata e =
     aws_call e (DynamoScan ''FileMetadata'') (\<lambda>w. (Inr (map snd (fileMetadata w)), w))"

definition cloudWatchLogs_putLogEvents :: "env \<Rightarrow> log_event list \<Rightarrow> unit io" where
  "cloudWatchLogs_putLogEvents e logEvents =
     aws_call e PutLogEvents (\<lambda>w. (Inr (), w\<lparr>logStream := logStream w @ logEvents\<rparr>))"

section \<open>The audit recorder\<close>

definition logActivity :: "env \<Rightarrow> string \<Rightarrow> jsval \<Rightarrow> unit io" where
  "logActivity e act det =
     io_bind (new_Date_toISOString e) (\<lambda>ts.
     io_bind (uuidv4 e) (\<lambda>lid.
     io_bind
       (io_try
          (io_bind (Date_now e) (\<lambda>now.
             cloudWatchLogs_putLogEvents e
               [\<lparr>ev_message =
                    stringify e
                      (JObj [(''action'', JStr act), (''details'', det), (''timestamp'', JStr ts)]),
                  ev_timestamp = now\<rparr>]))
          (\<lambda>err. console_error ''CloudWatch logging error:'' err)) (\<lambda>_.
     io_try
       (dynamoDB_put_ActivityLogs e
          \<lparr>logId = lid, timestamp = ts, action = act, details = stringify e det\<rparr>)
       (\<lambda>err. console_error ''DynamoDB logging error:'' err))))"

section \<open>Requests and responses\<close>

text \<open>
  The file that multer's memory storage hands to the handler: it collects the part's
  bytes into \<open>buffer\<close> and sets \<open>size\<close> to the length of what it collected.
\<close>

record multer_file =
  originalname :: string
  mimetype :: string
  buffer :: Buffer
  file_size :: nat

definition memoryStorage :: "string \<Rightarrow> string \<Rightarrow> Buffer \<Rightarrow> multer_file" where
  "memoryStorage name mime data =
     \<lparr>originalname = name, mimetype = mime, buffer = data, file_size = length data\<rparr>"

text \<open>
  An upload request: \<open>req.file\<close> (\<open>undefined\<close> when the request carries no part named
  \<open>file\<close>) and the text field \<open>req.body.encryptionKey\<close> (\<open>undefined\<close> when missing).
\<close>

record upload_req =
  req_file :: "multer_file option"
  body_encryptionKey :: "string option"

datatype res_body =
    UploadSuccess string string
  | Failure string "string option"
  | Send Buffer
  | FilesSuccess "FileRecord list"
  | MessageSuccess string

record response =
  status :: nat
  headers :: "(string \<times> string) list"
  body :: res_body

text \<open>\<open>x || d\<close> on a value that is \<open>undefined\<close> or a string: the empty string is falsy.\<close>

definition js_or :: "string option \<Rightarrow> string \<Rightarrow> string" where
  "js_or x d = (case x of None \<Rightarrow> d | Some s \<Rightarrow> if s = [] then d else s)"

text \<open>Reading a property of \<open>req.file\<close> throws when \<open>req.file\<close> is \<open>undefined\<close>.\<close>

definition file_property :: "multer_file option \<Rightarrow> string \<Rightarrow> js_error + multer_file" where
  "file_property file name =
     (case file of
        None \<Rightarrow>
          Inl (TypeError
                 (''Cannot read properties of undefined (reading '' @ [CHR 0x27] @ name @
                  [CHR 0x27] @ '')''))
      | Some f \<Rightarrow> Inr f)"

text \<open>
  \<open>res.setHeader(name, value)\<close>: Node refuses a value with a character other than tab,
  \<open>0x20\<close> to \<open>0x7e\<close> and \<open>0x80\<close> to \<open>0xff\<close>.
\<close>

definition header_char_ok :: "char \<Rightarrow> bool" where
  "header_char_ok c =
     (let n = (of_char c :: nat) in n = 9 \<or> (32 \<le> n \<and> n \<le> 126) \<or> 128 \<le> n)"

definition setHeader ::
  "string \<Rightarrow> string \<Rightarrow> (string \<times> string) list \<Rightarrow> js_error + (string \<times> string) list" where
  "setHeader name v hs =
     (if list_all header_char_ok v then Inr (AList.update name v hs)
      else Inl (ERR_INVALID_CHAR (''Invalid character in header content ['' @ name @ '']'')))"

section \<open>The object gateway\<close>

definition post_api_upload :: "env \<Rightarrow> upload_req \<Rightarrow> response io" where
  "post_api_upload e req =
     io_try
       (let file = req_file req;
            encryptionKey = js_or (body_encryptionKey req) ''default-password''
        in io_bind (uuidv4 e) (\<lambda>fid.
           io_bind (io_lift (file_property file ''buffer'')) (\<lambda>f.
           io_bind (encryptFile e (buffer f) encryptionKey) (\<lambda>encryptedBuffer.
           io_bind
             (s3_upload e (''files/'' @ fid)
                \<lparr>s3_Body = encryptedBuffer, s3_ContentType = mimetype f,
                 s3_Metadata = [(''original-name'', encodeURIComponent e (originalname f))]\<rparr>)
             (\<lambda>_.
           io_bind (new_Date_toISOString e) (\<lambda>now.
           io_bind
             (dynamoDB_put_FileMetadata e
                \<lparr>fileId = fid, fileName = originalname f, contentType = mimetype f,
                 size_bytes = file_size f, uploadedAt = now, encrypted = True\<rparr>)
             (\<lambda>_.
           io_bind
             (logActivity e ''FILE_UPLOAD''
                (JObj [(''fileId'', JStr fid), (''fileName'', JStr (originalname f)),
                       (''size'', JNum (file_size f))]))
             (\<lambda>_.
           io_return
             \<lparr>status = 200, headers = [],
              body = UploadSuccess fid ''File uploaded successfully''\<rparr>))))))))
       (\<lambda>error.
          io_bind (console_error ''Error uploading file:'' error) (\<lambda>_.
          io_return
            \<lparr>status = 500, headers = [],
             body = Failure ''Error uploading file'' (Some (message error))\<rparr>))"

text \<open>
  \<open>!encryptionKey\<close> on a query value that is \<open>undefined\<close> or a string holds for
  \<open>undefined\<close> and for the empty string: both take the early return.
\<close>

definition get_api_download :: "env \<Rightarrow> string \<Rightarrow> string option \<Rightarrow> response io" where
  "get_api_download e fid encryptionKey =
     io_try
       (case encryptionKey of
          None \<Rightarrow>
            io_return
              \<lparr>status = 400, headers = [], body = Failure ''Encryption key is required'' None\<rparr>
        | Some key \<Rightarrow>
            if key = [] then
              io_return
                \<lparr>status = 400, headers = [],
                 body = Failure ''Encryption key is required'' None\<rparr>
            else
              io_bind (dynamoDB_get_FileMetadata e fid) (\<lambda>metadata.
              case metadata of
                None \<Rightarrow>
                  io_return
                    \<lparr>status = 404, headers = [], body = Failure ''File not found'' None\<rparr>
              | Some Item \<Rightarrow>
                  io_bind (s3_getObject e (''files/'' @ fid)) (\<lambda>s3Object.
                  io_bind (io_lift (decryptFile e (s3_Body s3Object) key)) (\<lambda>decryptedBuffer.
                  io_bind
                    (logActivity e ''FILE_DOWNLOAD''
                       (JObj [(''fileId'', JStr fid), (''fileName'', JStr (fileName Item))]))
                    (\<lambda>_.
                  io_bind (io_lift (setHeader ''Content-Type'' (contentType Item) [])) (\<lambda>hs.
                  io_bind
                    (io_lift
                       (setHeader ''Content-Disposition''
                          (''attachment; filename='' @ [CHR 0x22] @ fileName Item @ [CHR 0x22])
                          hs))
                    (\<lambda>hs'.
                  io_return
                    \<lparr>status = 200, headers = hs', body = Send decryptedBuffer\<rparr>)))))))
       (\<lambda>error.
          io_bind (console_error ''Error downloading file:'' error) (\<lambda>_.
          io_return
            \<lparr>status = 500, headers = [],
             body = Failure ''Error downloading file'' (Some (message error))\<rparr>))"

definition get_api_files :: "env \<Rightarrow> response io" where
  "get_api_files e =
     io_try
       (io_bind (dynamoDB_scan_FileMetadata e) (\<lambda>Items.
        io_bind (logActivity e ''LIST_FILES'' (JObj [(''count'', JNum (length Items))])) (\<lambda>_.
        io_return \<lparr>status = 200, headers = [], body = FilesSuccess Items\<rparr>)))
       (\<lambda>error.
          io_bind (console_error ''Error listing files:'' error) (\<lambda>_.
          io_return
            \<lparr>status = 500, headers = [],
             body = Failure ''Error listing files'' (Some (message error))\<rparr>))"

definition delete_api_files :: "env \<Rightarrow> string \<Rightarrow> response io" where
  "delete_api_files e fid =
     io_try
       (io_bind (dynamoDB_get_FileMetadata e fid) (\<lambda>metadata.
        case metadata of
          None \<Rightarrow>
            io_return \<lparr>status = 404, headers = [], body = Failure ''File not found'' None\<rparr>
        | Some Item \<Rightarrow>
            io_bind (s3_deleteObject e (''files/'' @ fid)) (\<lambda>_.
            io_bind (dynamoDB_delete_FileMetadata e fid) (\<lambda>_.
            io_bind
              (logActivity e ''FILE_DELETE''
                 (JObj [(''fileId'', JStr fid), (''fileName'', JStr (fileName Item))]))
              (\<lambda>_.
            io_return
              \<lparr>status = 200, headers = [],
               body = MessageSuccess ''File deleted successfully''\<rparr>)))))
       (\<lambda>error.
          io_bind (console_error ''Error deleting file:'' error) (\<lambda>_.
          io_return
            \<lparr>status = 500, headers = [],
             body = Failure ''Error deleting file'' (Some (message error))\<rparr>))"

section \<open>Audit outages and sample inputs\<close>

text \<open>
  The environment in which the two audit writes of \<open>logActivity\<close> are rejected with
  \<open>a\<close> (CloudWatch) and \<open>b\<close> (the ActivityLogs table), or succeed when \<open>None\<close>;
  every other call behaves as in \<open>e\<close>.
\<close>

definition audit_faults :: "env \<Rightarrow> string option \<Rightarrow> string option \<Rightarrow> env" where
  "audit_faults e a b =
     e\<lparr>fault := (fault e)(PutLogEvents := a, DynamoPut ''ActivityLogs'' := b)\<rparr>"

text \<open>A small environment and an empty world, for concrete instances.\<close>

definition env0 :: env where
  "env0 =
     \<lparr>kdf = (\<lambda>password salt i. of_nat (length password + i)),
      aes256 = (\<lambda>key block. NOT block XOR be_word (take 16 key)),
      entropy = (\<lambda>i. of_nat i),
      uuid = (\<lambda>n. ''id-'' @ replicate n CHR ''x''),
      clock_ms = (\<lambda>n. 1000 + n),
      iso = (\<lambda>t. ''2024-01-01T00:00:00.000Z''),
      stringify = (\<lambda>v. ''{}''),
      encodeURIComponent = (\<lambda>s. s),
      fault = (\<lambda>c. None)\<rparr>"

definition w0 :: world where
  "w0 =
     \<lparr>bucket = [], fileMetadata = [], activityLogs = [], logStream = [], console = [],
      calls = [], rand_pos = 0, uuid_pos = 0, clock_pos = 0\<rparr>"

definition req0 :: upload_req where
  "req0 =
     \<lparr>req_file = Some (memoryStorage ''report.pdf'' ''application/pdf'' [1, 2, 3]),
      body_encryptionKey = Some ''secret''\<rparr>"

section \<open>Properties of the cipher codec\<close>

lemma length_scryptSync: "length (scryptSync e password salt keylen) = keylen"
  by (simp add: scryptSync_def)

text \<open>A key-stream block always has its 16 bytes.\<close>

lemma be_bytes_length: "length (be_bytes x) = 16"
  by (simp add: be_bytes_def)

lemma cipher_update_length: "length (fst (cipher_update e c bs)) = length bs"
  by (induction bs arbitrary: c) (simp_all add: case_prod_beta)

lemma xor_twice: "(b XOR k) XOR k = (b :: byte)"
  by (simp add: xor.assoc)

lemma cipher_update_involution:
  "fst (cipher_update e c (fst (cipher_update e c bs))) = bs"
  by (induction bs arbitrary: c) (simp_all add: xor_twice case_prod_beta)

lemma encryptFile_result:
  "encryptFile e P K w =
     (Inr (map (\<lambda>i. entropy e (rand_pos w + i)) [0..<16] @
           fst (cipher_update e
                  \<lparr>c_key = scryptSync e K ''salt'' 32,
                   c_counter = be_word (map (\<lambda>i. entropy e (rand_pos w + i)) [0..<16]),
                   c_pending = []\<rparr> P)),
      w\<lparr>rand_pos := rand_pos w + 16\<rparr>)"
  by (simp add: encryptFile_def randomBytes_def io_bind_def io_lift_def io_return_def
      createCipheriv_def cipher_final_def length_scryptSync case_prod_beta)

lemma encryptFile_length:
  "encryptFile e P K w = (Inr c, w1) \<Longrightarrow> length c = length P + 16"
  by (auto simp add: encryptFile_result cipher_update_length)

lemma decryptFile_short:
  "length B < 16 \<Longrightarrow> decryptFile e B K = Inl ERR_CRYPTO_INVALID_IV"
  by (simp add: decryptFile_def createDecipheriv_def createCipheriv_def)

lemma decryptFile_long:
  "16 \<le> length B \<Longrightarrow>
   decryptFile e B K =
     Inr (fst (cipher_update e
                 \<lparr>c_key = scryptSync e K ''salt'' 32, c_counter = be_word (take 16 B),
                  c_pending = []\<rparr> (drop 16 B)))"
  by (simp add: decryptFile_def createDecipheriv_def createCipheriv_def cipher_final_def
      length_scryptSync case_prod_beta)

text \<open>The codec reads the key derivation, the block cipher and the entropy, nothing else.\<close>

lemma next_keystream_env:
  "aes256 e' = aes256 e \<Longrightarrow> next_keystream e' c = next_keystream e c"
  by (simp add: next_keystream_def Let_def cong: list.case_cong)

lemma cipher_update_env:
  "aes256 e' = aes256 e \<Longrightarrow> cipher_update e' c bs = cipher_update e c bs"
  by (induction bs arbitrary: c) (simp_all add: next_keystream_env [of e' e])

lemma decryptFile_env:
  "kdf e' = kdf e \<Longrightarrow> aes256 e' = aes256 e \<Longrightarrow> decryptFile e' B K = decryptFile e B K"
  by (simp add: decryptFile_def scryptSync_def cipher_update_env [of e' e] split: sum.splits)

lemma encryptFile_env:
  "kdf e' = kdf e \<Longrightarrow> aes256 e' = aes256 e \<Longrightarrow> entropy e' = entropy e \<Longrightarrow>
   encryptFile e' P K = encryptFile e P K"
  by (simp add: encryptFile_def scryptSync_def randomBytes_def cipher_update_env [of e' e])

lemma decryptFile_fault: "decryptFile (e\<lparr>fault := f\<rparr>) B K = decryptFile e B K"
  by (rule decryptFile_env) simp_all

lemma encryptFile_fault: "encryptFile (e\<lparr>fault := f\<rparr>) P K = encryptFile e P K"
  by (rule encryptFile_env) simp_all

text \<open>
  C1. For every plaintext and every passphrase, \<open>encryptFile\<close> returns a blob, and
  \<open>decryptFile\<close> of that blob under the same passphrase returns exactly the plaintext,
  whatever the key derivation, the block cipher and the random bytes are.
\<close>

theorem encrypt_decrypt_roundtrip:
  "\<exists>c w'. encryptFile e P K w = (Inr c, w') \<and> decryptFile e c K = Inr P"
  by (simp add: encryptFile_result decryptFile_long cipher_update_involution)

lemma encryptFile_sample:
  "fst (encryptFile env0 [1, 2, 3] ''secret'' w0) =
     Inr [0, 1, 2, 3, 4, 5, 6, 7, 8, 9, 10, 11, 12, 13, 14, 15, 248, 251, 246]"
  by code_simp

theorem encrypt_decrypt_roundtrip_witness:
  "fst (encryptFile env0 [1, 2, 3] ''secret'' w0) =
     Inr [0, 1, 2, 3, 4, 5, 6, 7, 8, 9, 10, 11, 12, 13, 14, 15, 248, 251, 246] \<and>
   decryptFile env0 [0, 1, 2, 3, 4, 5, 6, 7, 8, 9, 10, 11, 12, 13, 14, 15, 248, 251, 246]
     ''secret'' = Inr [1, 2, 3]"
  using encrypt_decrypt_roundtrip [of env0 "[1, 2, 3]" "''secret''" w0] encryptFile_sample
  by auto

text \<open>
  C2. \<open>decryptFile\<close> throws exactly when the blob is shorter than the 16 bytes of the
  initialization vector: a shorter blob makes \<open>createDecipheriv\<close> throw Node's
  invalid-IV error, under every passphrase; a blob of at least 16 bytes is decrypted to
  some byte sequence under every passphrase, the right one or not.
\<close>

theorem decryptFile_throws_iff_short:
  "(length B < 16 \<longrightarrow> decryptFile e B K = Inl ERR_CRYPTO_INVALID_IV) \<and>
   (16 \<le> length B \<longrightarrow> (\<exists>p. decryptFile e B K = Inr p))"
  by (simp add: decryptFile_short decryptFile_long)

theorem decryptFile_throws_iff_short_witness:
  "decryptFile env0 [1, 2, 3] ''secret'' = Inl ERR_CRYPTO_INVALID_IV \<and>
   (\<exists>p. decryptFile env0 (replicate 16 0 @ [7, 7]) ''wrong'' = Inr p)"
  using decryptFile_throws_iff_short [of "[1, 2, 3]" env0 "''secret''"]
    decryptFile_throws_iff_short [of "replicate 16 0 @ [7, 7]" env0 "''wrong''"]
  by simp

text \<open>
  C10. The codec is length-transparent: \<open>encryptFile\<close> returns a blob 16 bytes longer
  than the plaintext; \<open>decryptFile\<close> of a blob of at least 16 bytes returns 16 bytes
  fewer; a blob of exactly 16 bytes decrypts to the empty byte sequence.
\<close>

theorem codec_length_transparent:
  "(\<exists>c w'. encryptFile e P K w = (Inr c, w') \<and> length c = length P + 16) \<and>
   (16 \<le> length B \<longrightarrow> (\<exists>p. decryptFile e B K = Inr p \<and> length p = length B - 16)) \<and>
   (length B = 16 \<longrightarrow> decryptFile e B K = Inr [])"
  by (simp add: encryptFile_result decryptFile_long cipher_update_length)

theorem codec_length_transparent_witness:
  "(\<exists>c w'. encryptFile env0 [1, 2, 3] ''secret'' w0 = (Inr c, w') \<and> length c = 19) \<and>
   (\<exists>p. decryptFile env0 (replicate 16 0 @ [7, 7]) ''secret'' = Inr p \<and> length p = 2) \<and>
   decryptFile env0 (replicate 16 0) ''secret'' = Inr []"
  using codec_length_transparent [of env0 "[1, 2, 3]" "''secret''" w0 "replicate 16 0 @ [7, 7]"]
    codec_length_transparent [of env0 "[1, 2, 3]" "''secret''" w0 "replicate 16 0"]
  by simp

section \<open>Properties of the audit recorder and the gateway\<close>

lemmas io_defs = io_return_def io_bind_def io_try_def io_lift_def io_throw_def

lemmas client_defs = uuidv4_def Date_now_def new_Date_toISOString_def console_error_def
  aws_call_def s3_upload_def s3_getObject_def s3_deleteObject_def dynamoDB_put_FileMetadata_def
  dynamoDB_put_ActivityLogs_def dynamoDB_get_FileMetadata_def dynamoDB_delete_FileMetadata_def
  dynamoDB_scan_FileMetadata_def cloudWatchLogs_putLogEvents_def

lemma logActivity_returns: "fst (logActivity e act det w) = Inr ()"
  by (simp add: logActivity_def io_defs client_defs split: option.splits)

lemma case_logActivity:
  "(case logActivity e act det w of (r, w') \<Rightarrow> F r w') =
     F (Inr ()) (snd (logActivity e act det w))"
  using logActivity_returns [of e act det w]
  by (cases "logActivity e act det w") simp

lemma logActivity_stores:
  "bucket (snd (logActivity e act det w)) = bucket w"
  "fileMetadata (snd (logActivity e act det w)) = fileMetadata w"
  by (simp_all add: logActivity_def io_defs client_defs split: option.splits)

lemma logActivity_calls:
  "calls (snd (logActivity e act det w)) = calls w @ [PutLogEvents, DynamoPut ''ActivityLogs'']"
  by (simp add: logActivity_def io_defs client_defs split: option.splits)

lemmas handler_simps = io_defs client_defs file_property_def case_logActivity encryptFile_result
  logActivity_stores logActivity_calls Let_def

subsection \<open>Download and delete\<close>

lemma download_stores:
  "bucket (snd (get_api_download e fid k w)) = bucket w"
  "fileMetadata (snd (get_api_download e fid k w)) = fileMetadata w"
  by (simp_all add: get_api_download_def handler_simps split: option.splits sum.splits)

lemma download_unknown:
  "map_of (fileMetadata w) fid = None \<Longrightarrow> fault e (DynamoGet ''FileMetadata'') = None \<Longrightarrow>
   key \<noteq> [] \<Longrightarrow>
   get_api_download e fid (Some key) w =
     (Inr \<lparr>status = 404, headers = [], body = Failure ''File not found'' None\<rparr>,
      w\<lparr>calls := calls w @ [DynamoGet ''FileMetadata'']\<rparr>)"
  by (simp add: get_api_download_def handler_simps)

lemma download_unknown_logs:
  "map_of (fileMetadata w) fid = None \<Longrightarrow>
   activityLogs (snd (get_api_download e fid k w)) = activityLogs w"
  by (simp add: get_api_download_def handler_simps split: option.splits)

lemma delete_unknown:
  "map_of (fileMetadata w) fid = None \<Longrightarrow> fault e (DynamoGet ''FileMetadata'') = None \<Longrightarrow>
   delete_api_files e fid w =
     (Inr \<lparr>status = 404, headers = [], body = Failure ''File not found'' None\<rparr>,
      w\<lparr>calls := calls w @ [DynamoGet ''FileMetadata'']\<rparr>)"
  by (simp add: delete_api_files_def handler_simps)

lemma delete_unknown_stores:
  assumes "map_of (fileMetadata w) fid = None"
  shows "bucket (snd (delete_api_files e fid w)) = bucket w"
    and "fileMetadata (snd (delete_api_files e fid w)) = fileMetadata w"
    and "activityLogs (snd (delete_api_files e fid w)) = activityLogs w"
  using assms by (simp_all add: delete_api_files_def handler_simps split: option.splits)

text \<open>
  C3. A download request with no \<open>encryptionKey\<close> is answered with status 400 and the
  world is left exactly as it was: no call to DynamoDB or S3 is recorded, whatever the
  file id and whatever the stores would have answered.
\<close>

theorem download_without_key_rejected:
  "get_api_download e fid None w =
     (Inr \<lparr>status = 400, headers = [], body = Failure ''Encryption key is required'' None\<rparr>,
      w)"
  by (simp add: get_api_download_def io_defs)

theorem download_without_key_rejected_witness:
  "get_api_download env0 ''id-'' None w0 =
     (Inr \<lparr>status = 400, headers = [], body = Failure ''Encryption key is required'' None\<rparr>,
      w0)"
  using download_without_key_rejected [of env0 "''id-''" w0] .

text \<open>
  C4. When the metadata table holds no record for the file id: a download with a
  (non-empty) passphrase and a delete are both answered with status 404, provided the
  metadata lookup itself is answered; and in every case, lookup answered or not, neither
  handler changes the bucket, the metadata table or the activity log table.
\<close>

theorem unknown_fileId_not_found:
  assumes "map_of (fileMetadata w) fid = None"
  shows "(fault e (DynamoGet ''FileMetadata'') = None \<and> key \<noteq> [] \<longrightarrow>
            fst (get_api_download e fid (Some key) w) =
              Inr \<lparr>status = 404, headers = [], body = Failure ''File not found'' None\<rparr>) \<and>
         (fault e (DynamoGet ''FileMetadata'') = None \<longrightarrow>
            fst (delete_api_files e fid w) =
              Inr \<lparr>status = 404, headers = [], body = Failure ''File not found'' None\<rparr>) \<and>
         bucket (snd (get_api_download e fid (Some key) w)) = bucket w \<and>
         fileMetadata (snd (get_api_download e fid (Some key) w)) = fileMetadata w \<and>
         activityLogs (snd (get_api_download e fid (Some key) w)) = activityLogs w \<and>
         bucket (snd (delete_api_files e fid w)) = bucket w \<and>
         fileMetadata (snd (delete_api_files e fid w)) = fileMetadata w \<and>
         activityLogs (snd (delete_api_files e fid w)) = activityLogs w"
  using assms
  by (simp add: download_unknown delete_unknown download_stores download_unknown_logs
      delete_unknown_stores)

theorem unknown_fileId_not_found_witness:
  "fst (get_api_download env0 ''nope'' (Some ''secret'') w0) =
     Inr \<lparr>status = 404, headers = [], body = Failure ''File not found'' None\<rparr> \<and>
   fst (delete_api_files env0 ''nope'' w0) =
     Inr \<lparr>status = 404, headers = [], body = Failure ''File not found'' None\<rparr> \<and>
   bucket (snd (get_api_download env0 ''nope'' (Some ''secret'') w0)) = [] \<and>
   fileMetadata (snd (delete_api_files env0 ''nope'' w0)) = []"
  using unknown_fileId_not_found [of w0 "''nope''" env0 "''secret''"]
  by (simp add: w0_def env0_def)

subsection \<open>Audit outages\<close>

lemma upload_audit_faults:
  "fst (post_api_upload (audit_faults e a b) req w) = fst (post_api_upload e req w)"
  by (simp add: post_api_upload_def encryptFile_fault audit_faults_def handler_simps
      split: option.splits)

lemma download_audit_faults:
  "fst (get_api_download (audit_faults e a b) fid k w) = fst (get_api_download e fid k w)"
  by (simp add: get_api_download_def decryptFile_fault audit_faults_def handler_simps
      split: option.splits sum.splits)

lemma delete_audit_faults:
  "fst (delete_api_files (audit_faults e a b) fid w) = fst (delete_api_files e fid w)"
  by (simp add: delete_api_files_def audit_faults_def handler_simps split: option.splits)

text \<open>
  C6. \<open>logActivity\<close> returns normally for every action and details, whether the
  CloudWatch write and the ActivityLogs write succeed or are rejected, in every
  combination. And the response of an upload, a download and a delete is the same
  whatever happens to the two audit writes.
\<close>

theorem audit_failures_do_not_surface:
  "fst (logActivity (audit_faults e a b) act det w) = Inr () \<and>
   fst (post_api_upload (audit_faults e a b) req w) = fst (post_api_upload e req w) \<and>
   fst (get_api_download (audit_faults e a b) fid k w) = fst (get_api_download e fid k w) \<and>
   fst (delete_api_files (audit_faults e a b) fid w) = fst (delete_api_files e fid w)"
  by (simp add: logActivity_returns upload_audit_faults download_audit_faults
      delete_audit_faults)

theorem audit_failures_do_not_surface_witness:
  "fst (logActivity (audit_faults env0 (Some ''sink down'') (Some ''table down''))
          ''FILE_UPLOAD'' (JObj []) w0) = Inr () \<and>
   fst (post_api_upload (audit_faults env0 (Some ''sink down'') (Some ''table down'')) req0 w0) =
     fst (post_api_upload env0 req0 w0) \<and>
   fst (get_api_download (audit_faults env0 (Some ''sink down'') (Some ''table down''))
          ''id-'' (Some ''secret'') w0) =
     fst (get_api_download env0 ''id-'' (Some ''secret'') w0) \<and>
   fst (delete_api_files (audit_faults env0 (Some ''sink down'') (Some ''table down''))
          ''id-'' w0) =
     fst (delete_api_files env0 ''id-'' w0)"
  using audit_failures_do_not_surface
    [of env0 "Some ''sink down''" "Some ''table down''" "''FILE_UPLOAD''" "JObj []" w0 req0
      "''id-''" "Some ''secret''"] .

subsection \<open>Upload\<close>

lemma upload_key_default:
  "js_or k ''default-password'' = js_or k' ''default-password'' \<Longrightarrow>
   post_api_upload e (req\<lparr>body_encryptionKey := k\<rparr>) =
     post_api_upload e (req\<lparr>body_encryptionKey := k'\<rparr>)"
  by (simp add: post_api_upload_def)

lemma upload_response:
  "fst (post_api_upload e req w) =
     Inr (case req_file req of
            None \<Rightarrow>
              \<lparr>status = 500, headers = [],
               body = Failure ''Error uploading file''
                  (Some (''Cannot read properties of undefined (reading '' @ [CHR 0x27] @
                         ''buffer'' @ [CHR 0x27] @ '')''))\<rparr>
          | Some f \<Rightarrow>
              (case fault e S3Upload of
                 Some m \<Rightarrow>
                   \<lparr>status = 500, headers = [], body = Failure ''Error uploading file'' (Some m)\<rparr>
               | None \<Rightarrow>
                   (case fault e (DynamoPut ''FileMetadata'') of
                      Some m \<Rightarrow>
                        \<lparr>status = 500, headers = [],
                         body = Failure ''Error uploading file'' (Some m)\<rparr>
                    | None \<Rightarrow>
                        \<lparr>status = 200, headers = [],
                         body = UploadSuccess (uuid e (uuid_pos w))
                                  ''File uploaded successfully''\<rparr>)))"
  by (simp add: post_api_upload_def handler_simps split: option.splits)

lemma upload_fileMetadata:
  "fileMetadata (snd (post_api_upload e req w)) =
     (case req_file req of
        None \<Rightarrow> fileMetadata w
      | Some f \<Rightarrow>
          (case fault e S3Upload of
             Some m \<Rightarrow> fileMetadata w
           | None \<Rightarrow>
               (case fault e (DynamoPut ''FileMetadata'') of
                  Some m \<Rightarrow> fileMetadata w
                | None \<Rightarrow>
                    AList.update (uuid e (uuid_pos w))
                      \<lparr>fileId = uuid e (uuid_pos w), fileName = originalname f,
                       contentType = mimetype f, size_bytes = file_size f,
                       uploadedAt = iso e (clock_ms e (clock_pos w)), encrypted = True\<rparr>
                      (fileMetadata w))))"
  by (simp add: post_api_upload_def handler_simps split: option.splits)

lemma upload_bucket_unchanged:
  "req_file req = None \<or> fault e S3Upload \<noteq> None \<Longrightarrow>
   bucket (snd (post_api_upload e req w)) = bucket w"
  by (auto simp add: post_api_upload_def handler_simps split: option.splits)

lemma upload_bucket_written:
  assumes "req_file req = Some f" and "fault e S3Upload = None"
  shows "\<exists>c w1.
           encryptFile e (buffer f) (js_or (body_encryptionKey req) ''default-password'')
             (w\<lparr>uuid_pos := uuid_pos w + 1\<rparr>) = (Inr c, w1) \<and>
           bucket (snd (post_api_upload e req w)) =
             AList.update (''files/'' @ uuid e (uuid_pos w))
               \<lparr>s3_Body = c, s3_ContentType = mimetype f,
                s3_Metadata = [(''original-name'', encodeURIComponent e (originalname f))]\<rparr>
               (bucket w)"
  using assms by (simp add: post_api_upload_def handler_simps split: option.splits)

lemma upload_calls:
  "calls (snd (post_api_upload e req w)) =
     calls w @
     (case req_file req of
        None \<Rightarrow> []
      | Some f \<Rightarrow>
          (case fault e S3Upload of
             Some m \<Rightarrow> [S3Upload]
           | None \<Rightarrow>
               (case fault e (DynamoPut ''FileMetadata'') of
                  Some m \<Rightarrow> [S3Upload, DynamoPut ''FileMetadata'']
                | None \<Rightarrow>
                    [S3Upload, DynamoPut ''FileMetadata'', PutLogEvents,
                     DynamoPut ''ActivityLogs''])))"
  by (simp add: post_api_upload_def handler_simps split: option.splits)

lemma list_response:
  "fault e (DynamoScan ''FileMetadata'') = None \<Longrightarrow>
   fst (get_api_files e w) =
     Inr \<lparr>status = 200, headers = [], body = FilesSuccess (map snd (fileMetadata w))\<rparr>"
  by (simp add: get_api_files_def handler_simps)

lemma env0_simps:
  "fault env0 c = None"
  "uuid env0 (uuid_pos w0) = ''id-''"
  "encodeURIComponent env0 name = name"
  by (simp_all add: env0_def w0_def)

lemma req0_simps:
  "req_file req0 = Some (memoryStorage ''report.pdf'' ''application/pdf'' [1, 2, 3])"
  "req_file (req0\<lparr>body_encryptionKey := k\<rparr>) =
     Some (memoryStorage ''report.pdf'' ''application/pdf'' [1, 2, 3])"
  "body_encryptionKey req0 = Some ''secret''"
  by (simp_all add: req0_def)

lemma memoryStorage_simps:
  "originalname (memoryStorage name mime data) = name"
  "mimetype (memoryStorage name mime data) = mime"
  "buffer (memoryStorage name mime data) = data"
  "file_size (memoryStorage name mime data) = length data"
  by (simp_all add: memoryStorage_def)

lemma upload_success:
  assumes "req_file req = Some f" and "fault e S3Upload = None"
    and "fault e (DynamoPut ''FileMetadata'') = None"
  shows "\<exists>c w1.
           encryptFile e (buffer f) (js_or (body_encryptionKey req) ''default-password'')
             (w\<lparr>uuid_pos := uuid_pos w + 1\<rparr>) = (Inr c, w1) \<and>
           fst (post_api_upload e req w) =
             Inr \<lparr>status = 200, headers = [],
                  body = UploadSuccess (uuid e (uuid_pos w)) ''File uploaded successfully''\<rparr> \<and>
           map_of (bucket (snd (post_api_upload e req w))) (''files/'' @ uuid e (uuid_pos w)) =
             Some \<lparr>s3_Body = c, s3_ContentType = mimetype f,
                   s3_Metadata =
                     [(''original-name'', encodeURIComponent e (originalname f))]\<rparr>"
proof -
  from upload_bucket_written [OF assms(1,2), of w] obtain c w1 where
    enc: "encryptFile e (buffer f) (js_or (body_encryptionKey req) ''default-password'')
            (w\<lparr>uuid_pos := uuid_pos w + 1\<rparr>) = (Inr c, w1)"
    and bkt: "bucket (snd (post_api_upload e req w)) =
      AList.update (''files/'' @ uuid e (uuid_pos w))
        \<lparr>s3_Body = c, s3_ContentType = mimetype f,
         s3_Metadata = [(''original-name'', encodeURIComponent e (originalname f))]\<rparr>
        (bucket w)"
    by blast
  have "fst (post_api_upload e req w) =
          Inr \<lparr>status = 200, headers = [],
               body = UploadSuccess (uuid e (uuid_pos w)) ''File uploaded successfully''\<rparr>"
    using assms by (simp add: upload_response)
  moreover have "map_of (bucket (snd (post_api_upload e req w)))
        (''files/'' @ uuid e (uuid_pos w)) =
      Some \<lparr>s3_Body = c, s3_ContentType = mimetype f,
            s3_Metadata = [(''original-name'', encodeURIComponent e (originalname f))]\<rparr>"
    by (simp only: bkt update_conv') simp
  ultimately show ?thesis using enc by blast
qed

text \<open>
  C5. An upload whose \<open>encryptionKey\<close> field is missing is handled exactly as the same
  upload with the field set to \<open>default-password\<close>. It is not rejected: when the request
  carries a file and the two store writes are accepted, the answer is the success
  response, and the blob stored under \<open>files/{fileId}\<close> is the file encrypted under
  \<open>default-password\<close>.
\<close>

theorem upload_missing_key_uses_default:
  "post_api_upload e (req\<lparr>body_encryptionKey := None\<rparr>) w =
     post_api_upload e (req\<lparr>body_encryptionKey := Some ''default-password''\<rparr>) w \<and>
   (req_file req = Some f \<and> fault e S3Upload = None \<and>
    fault e (DynamoPut ''FileMetadata'') = None \<longrightarrow>
      (\<exists>c w1.
         encryptFile e (buffer f) ''default-password'' (w\<lparr>uuid_pos := uuid_pos w + 1\<rparr>) =
           (Inr c, w1) \<and>
         fst (post_api_upload e (req\<lparr>body_encryptionKey := None\<rparr>) w) =
           Inr \<lparr>status = 200, headers = [],
                body = UploadSuccess (uuid e (uuid_pos w)) ''File uploaded successfully''\<rparr> \<and>
         map_of (bucket (snd (post_api_upload e (req\<lparr>body_encryptionKey := None\<rparr>) w)))
             (''files/'' @ uuid e (uuid_pos w)) =
           Some \<lparr>s3_Body = c, s3_ContentType = mimetype f,
                 s3_Metadata =
                   [(''original-name'', encodeURIComponent e (originalname f))]\<rparr>))"
proof (intro conjI impI)
  show "post_api_upload e (req\<lparr>body_encryptionKey := None\<rparr>) w =
          post_api_upload e (req\<lparr>body_encryptionKey := Some ''default-password''\<rparr>) w"
    by (simp add: upload_key_default [of None "Some ''default-password''"] js_or_def)
next
  assume h: "req_file req = Some f \<and> fault e S3Upload = None \<and>
    fault e (DynamoPut ''FileMetadata'') = None"
  then have f: "req_file (req\<lparr>body_encryptionKey := None\<rparr>) = Some f" by simp
  show "\<exists>c w1.
         encryptFile e (buffer f) ''default-password'' (w\<lparr>uuid_pos := uuid_pos w + 1\<rparr>) =
           (Inr c, w1) \<and>
         fst (post_api_upload e (req\<lparr>body_encryptionKey := None\<rparr>) w) =
           Inr \<lparr>status = 200, headers = [],
                body = UploadSuccess (uuid e (uuid_pos w)) ''File uploaded successfully''\<rparr> \<and>
         map_of (bucket (snd (post_api_upload e (req\<lparr>body_encryptionKey := None\<rparr>) w)))
             (''files/'' @ uuid e (uuid_pos w)) =
           Some \<lparr>s3_Body = c, s3_ContentType = mimetype f,
                 s3_Metadata =
                   [(''original-name'', encodeURIComponent e (originalname f))]\<rparr>"
    using upload_success [OF f, of e w] h by (simp add: js_or_def)
qed

theorem upload_missing_key_uses_default_witness:
  "post_api_upload env0 (req0\<lparr>body_encryptionKey := None\<rparr>) w0 =
     post_api_upload env0 (req0\<lparr>body_encryptionKey := Some ''default-password''\<rparr>) w0 \<and>
   (\<exists>c w1.
      encryptFile env0 [1, 2, 3] ''default-password'' (w0\<lparr>uuid_pos := uuid_pos w0 + 1\<rparr>) =
        (Inr c, w1) \<and>
      fst (post_api_upload env0 (req0\<lparr>body_encryptionKey := None\<rparr>) w0) =
        Inr \<lparr>status = 200, headers = [],
             body = UploadSuccess ''id-'' ''File uploaded successfully''\<rparr> \<and>
      map_of (bucket (snd (post_api_upload env0 (req0\<lparr>body_encryptionKey := None\<rparr>) w0)))
          ''files/id-'' =
        Some \<lparr>s3_Body = c, s3_ContentType = ''application/pdf'',
              s3_Metadata = [(''original-name'', ''report.pdf'')]\<rparr>)"
  using upload_missing_key_uses_default
    [of env0 req0 w0 "memoryStorage ''report.pdf'' ''application/pdf'' [1, 2, 3]"]
  by (auto simp add: env0_simps req0_simps memoryStorage_simps)

text \<open>
  C9. An upload whose \<open>encryptionKey\<close> field is present but empty is handled exactly as
  one whose field is missing, that is as one with the field set to \<open>default-password\<close>:
  when the request carries a file and the two store writes are accepted, the blob stored
  is the file encrypted under \<open>default-password\<close>, not under the empty string.
\<close>

theorem upload_empty_key_uses_default:
  "post_api_upload e (req\<lparr>body_encryptionKey := Some []\<rparr>) w =
     post_api_upload e (req\<lparr>body_encryptionKey := None\<rparr>) w \<and>
   post_api_upload e (req\<lparr>body_encryptionKey := Some []\<rparr>) w =
     post_api_upload e (req\<lparr>body_encryptionKey := Some ''default-password''\<rparr>) w \<and>
   (req_file req = Some f \<and> fault e S3Upload = None \<and>
    fault e (DynamoPut ''FileMetadata'') = None \<longrightarrow>
      (\<exists>c w1.
         encryptFile e (buffer f) ''default-password'' (w\<lparr>uuid_pos := uuid_pos w + 1\<rparr>) =
           (Inr c, w1) \<and>
         map_of (bucket (snd (post_api_upload e (req\<lparr>body_encryptionKey := Some []\<rparr>) w)))
             (''files/'' @ uuid e (uuid_pos w)) =
           Some \<lparr>s3_Body = c, s3_ContentType = mimetype f,
                 s3_Metadata =
                   [(''original-name'', encodeURIComponent e (originalname f))]\<rparr>))"
proof (intro conjI impI)
  show "post_api_upload e (req\<lparr>body_encryptionKey := Some []\<rparr>) w =
          post_api_upload e (req\<lparr>body_encryptionKey := None\<rparr>) w"
    by (simp add: upload_key_default [of "Some []" None] js_or_def)
next
  show "post_api_upload e (req\<lparr>body_encryptionKey := Some []\<rparr>) w =
          post_api_upload e (req\<lparr>body_encryptionKey := Some ''default-password''\<rparr>) w"
    by (simp add: upload_key_default [of "Some []" "Some ''default-password''"] js_or_def)
next
  assume h: "req_file req = Some f \<and> fault e S3Upload = None \<and>
    fault e (DynamoPut ''FileMetadata'') = None"
  then have f: "req_file (req\<lparr>body_encryptionKey := Some []\<rparr>) = Some f" by simp
  show "\<exists>c w1.
         encryptFile e (buffer f) ''default-password'' (w\<lparr>uuid_pos := uuid_pos w + 1\<rparr>) =
           (Inr c, w1) \<and>
         map_of (bucket (snd (post_api_upload e (req\<lparr>body_encryptionKey := Some []\<rparr>) w)))
             (''files/'' @ uuid e (uuid_pos w)) =
           Some \<lparr>s3_Body = c, s3_ContentType = mimetype f,
                 s3_Metadata =
                   [(''original-name'', encodeURIComponent e (originalname f))]\<rparr>"
    using upload_success [OF f, of e w] h by (simp add: js_or_def) blast
qed

theorem upload_empty_key_uses_default_witness:
  "post_api_upload env0 (req0\<lparr>body_encryptionKey := Some []\<rparr>) w0 =
     post_api_upload env0 (req0\<lparr>body_encryptionKey := None\<rparr>) w0 \<and>
   post_api_upload env0 (req0\<lparr>body_encryptionKey := Some []\<rparr>) w0 =
     post_api_upload env0 (req0\<lparr>body_encryptionKey := Some ''default-password''\<rparr>) w0 \<and>
   (\<exists>c w1.
      encryptFile env0 [1, 2, 3] ''default-password'' (w0\<lparr>uuid_pos := uuid_pos w0 + 1\<rparr>) =
        (Inr c, w1) \<and>
      map_of (bucket (snd (post_api_upload env0 (req0\<lparr>body_encryptionKey := Some []\<rparr>) w0)))
          ''files/id-'' =
        Some \<lparr>s3_Body = c, s3_ContentType = ''application/pdf'',
              s3_Metadata = [(''original-name'', ''report.pdf'')]\<rparr>)"
  using upload_empty_key_uses_default
    [of env0 req0 w0 "memoryStorage ''report.pdf'' ''application/pdf'' [1, 2, 3]"]
  by (auto simp add: env0_simps req0_simps memoryStorage_simps)

text \<open>
  C7. After a successful upload of a file of \<open>n\<close> bytes, the metadata table holds for
  the new file id a record with the uploaded name, \<open>size\<close> equal to \<open>n\<close> (the length
  of the plaintext, while the stored blob has \<open>n + 16\<close> bytes) and \<open>encrypted\<close> true;
  and a following list request whose scan is answered returns that record.
\<close>

theorem upload_records_plaintext_size:
  assumes "post_api_upload e
             \<lparr>req_file = Some (memoryStorage name mime data), body_encryptionKey = k\<rparr> w =
           (Inr r, w')"
    and "status r = 200"
  shows "\<exists>rec obj.
           map_of (fileMetadata w') (uuid e (uuid_pos w)) = Some rec \<and>
           fileName rec = name \<and> size_bytes rec = length data \<and> encrypted rec \<and>
           map_of (bucket w') (''files/'' @ uuid e (uuid_pos w)) = Some obj \<and>
           length (s3_Body obj) = length data + 16 \<and>
           (fault e' (DynamoScan ''FileMetadata'') = None \<longrightarrow>
              (\<exists>fs. fst (get_api_files e' w') =
                      Inr \<lparr>status = 200, headers = [], body = FilesSuccess fs\<rparr> \<and>
                    rec \<in> set fs))"
proof -
  let ?f = "memoryStorage name mime data"
  let ?req = "\<lparr>req_file = Some ?f, body_encryptionKey = k\<rparr>"
  let ?fid = "uuid e (uuid_pos w)"
  let ?rec = "\<lparr>fileId = ?fid, fileName = name, contentType = mime, size_bytes = length data,
               uploadedAt = iso e (clock_ms e (clock_pos w)), encrypted = True\<rparr>"
  have res: "fst (post_api_upload e ?req w) = Inr r"
    and w': "snd (post_api_upload e ?req w) = w'"
    using assms(1) by simp_all
  have upfile: "req_file ?req = Some ?f" by simp
  have s3: "fault e S3Upload = None"
    using res assms(2) by (cases "fault e S3Upload") (auto simp add: upload_response)
  have ddb: "fault e (DynamoPut ''FileMetadata'') = None"
    using res assms(2) s3
    by (cases "fault e (DynamoPut ''FileMetadata'')") (auto simp add: upload_response)
  have "fileMetadata w' = AList.update ?fid ?rec (fileMetadata w)"
    using upload_fileMetadata [of e ?req w] s3 ddb
    by (simp add: w' memoryStorage_simps)
  then have rec: "map_of (fileMetadata w') ?fid = Some ?rec"
    by (simp add: update_conv')
  from upload_success [OF upfile s3 ddb, of w] obtain c w1 where
    enc: "encryptFile e (buffer ?f) (js_or (body_encryptionKey ?req) ''default-password'')
            (w\<lparr>uuid_pos := uuid_pos w + 1\<rparr>) = (Inr c, w1)"
    and obj: "map_of (bucket (snd (post_api_upload e ?req w))) (''files/'' @ ?fid) =
      Some \<lparr>s3_Body = c, s3_ContentType = mimetype ?f,
            s3_Metadata = [(''original-name'', encodeURIComponent e (originalname ?f))]\<rparr>"
    by blast
  have len: "length c = length data + 16"
    using encryptFile_length [OF enc] by (simp add: memoryStorage_simps)
  have listed: "?rec \<in> set (map snd (fileMetadata w'))"
    using map_of_SomeD [OF rec] by force
  show ?thesis
    using rec obj len listed by (auto simp add: w' list_response)
qed

theorem upload_records_plaintext_size_witness:
  "\<exists>rec obj.
     map_of (fileMetadata (snd (post_api_upload env0 req0 w0))) ''id-'' = Some rec \<and>
     fileName rec = ''report.pdf'' \<and> size_bytes rec = 3 \<and> encrypted rec \<and>
     map_of (bucket (snd (post_api_upload env0 req0 w0))) ''files/id-'' = Some obj \<and>
     length (s3_Body obj) = 19 \<and>
     (\<exists>fs. fst (get_api_files env0 (snd (post_api_upload env0 req0 w0))) =
             Inr \<lparr>status = 200, headers = [], body = FilesSuccess fs\<rparr> \<and>
           rec \<in> set fs)"
proof -
  let ?r = "\<lparr>status = 200, headers = [],
             body = UploadSuccess ''id-'' ''File uploaded successfully''\<rparr>"
  have "fst (post_api_upload env0 req0 w0) = Inr ?r"
    by (simp add: upload_response env0_simps req0_simps)
  then have run: "post_api_upload env0
      \<lparr>req_file = Some (memoryStorage ''report.pdf'' ''application/pdf'' [1, 2, 3]),
       body_encryptionKey = Some ''secret''\<rparr> w0 =
      (Inr ?r, snd (post_api_upload env0 req0 w0))"
    by (simp add: req0_def prod_eq_iff)
  have ok: "status ?r = 200" by simp
  show ?thesis
    using upload_records_plaintext_size [OF run ok, of env0]
    by (simp add: env0_simps numeral_3_eq_3)
qed

text \<open>
  C8. An upload issues its external calls in the order S3 upload, metadata write, audit
  writes, and stops at the first one that is rejected: the metadata write is never issued
  before the blob is written under \<open>files/{fileId}\<close>. So if the metadata table held no
  record for the new file id without its blob before the upload, it holds none after it,
  however the upload ends; and an upload that does not answer with the success response
  has left the metadata table as it was.
\<close>

theorem upload_blob_before_metadata:
  assumes "post_api_upload e req w = (r, w')"
    and "map_of (fileMetadata w) (uuid e (uuid_pos w)) \<noteq> None \<longrightarrow>
         map_of (bucket w) (''files/'' @ uuid e (uuid_pos w)) \<noteq> None"
  shows "(\<exists>n. calls w' =
              calls w @
              take n [S3Upload, DynamoPut ''FileMetadata'', PutLogEvents,
                      DynamoPut ''ActivityLogs'']) \<and>
         (map_of (fileMetadata w') (uuid e (uuid_pos w)) \<noteq> None \<longrightarrow>
          map_of (bucket w') (''files/'' @ uuid e (uuid_pos w)) \<noteq> None) \<and>
         (r \<noteq> Inr \<lparr>status = 200, headers = [],
                    body = UploadSuccess (uuid e (uuid_pos w))
                             ''File uploaded successfully''\<rparr> \<longrightarrow>
          fileMetadata w' = fileMetadata w)"
proof -
  let ?all = "[S3Upload, DynamoPut ''FileMetadata'', PutLogEvents, DynamoPut ''ActivityLogs'']"
  have r: "fst (post_api_upload e req w) = r" and w': "snd (post_api_upload e req w) = w'"
    using assms(1) by simp_all
  show ?thesis
  proof (cases "req_file req")
    case None
    have "calls w' = calls w @ take 0 ?all"
      using upload_calls [of e req w] None by (simp add: w')
    moreover have "fileMetadata w' = fileMetadata w"
      using upload_fileMetadata [of e req w] None by (simp add: w')
    moreover have "bucket w' = bucket w"
      using upload_bucket_unchanged [of req e w] None by (simp add: w')
    ultimately show ?thesis using assms(2) by (simp del: take_0)
  next
    case (Some f)
    show ?thesis
    proof (cases "fault e S3Upload")
      case s3: (Some m)
      have "calls w' = calls w @ take (Suc 0) ?all"
        using upload_calls [of e req w] Some s3 by (simp add: w')
      moreover have "fileMetadata w' = fileMetadata w"
        using upload_fileMetadata [of e req w] Some s3 by (simp add: w')
      moreover have "bucket w' = bucket w"
        using upload_bucket_unchanged [of req e w] s3 by (simp add: w')
      ultimately show ?thesis using assms(2) by (simp del: take_Suc_Cons) blast
    next
      case s3: None
      from upload_bucket_written [OF Some s3, of w] obtain c where
        "bucket w' =
           AList.update (''files/'' @ uuid e (uuid_pos w))
             \<lparr>s3_Body = c, s3_ContentType = mimetype f,
              s3_Metadata = [(''original-name'', encodeURIComponent e (originalname f))]\<rparr>
             (bucket w)"
        by (auto simp add: w')
      then have blob: "map_of (bucket w') (''files/'' @ uuid e (uuid_pos w)) \<noteq> None"
        by (simp add: update_conv')
      show ?thesis
      proof (cases "fault e (DynamoPut ''FileMetadata'')")
        case ddb: (Some m)
        have "calls w' = calls w @ take (Suc (Suc 0)) ?all"
          using upload_calls [of e req w] Some s3 ddb by (simp add: w')
        moreover have "fileMetadata w' = fileMetadata w"
          using upload_fileMetadata [of e req w] Some s3 ddb by (simp add: w')
        ultimately show ?thesis using blob by blast
      next
        case ddb: None
        have "calls w' = calls w @ take (Suc (Suc (Suc (Suc 0)))) ?all"
          using upload_calls [of e req w] Some s3 ddb by (simp add: w')
        moreover have
          "r = Inr \<lparr>status = 200, headers = [],
                    body = UploadSuccess (uuid e (uuid_pos w))
                             ''File uploaded successfully''\<rparr>"
          using upload_response [of e req w] Some s3 ddb by (simp add: r)
        ultimately show ?thesis using blob by blast
      qed
    qed
  qed
qed

theorem upload_blob_before_metadata_witness:
  "(\<exists>n. calls (snd (post_api_upload (env0\<lparr>fault := (fault env0)
              (DynamoPut ''FileMetadata'' := Some ''table down'')\<rparr>) req0 w0)) =
          calls w0 @
          take n [S3Upload, DynamoPut ''FileMetadata'', PutLogEvents,
                  DynamoPut ''ActivityLogs'']) \<and>
   map_of (bucket (snd (post_api_upload (env0\<lparr>fault := (fault env0)
              (DynamoPut ''FileMetadata'' := Some ''table down'')\<rparr>) req0 w0))) ''files/id-''
     \<noteq> None \<and>
   fileMetadata (snd (post_api_upload (env0\<lparr>fault := (fault env0)
              (DynamoPut ''FileMetadata'' := Some ''table down'')\<rparr>) req0 w0)) = []"
proof -
  let ?e = "env0\<lparr>fault := (fault env0)(DynamoPut ''FileMetadata'' := Some ''table down'')\<rparr>"
  have fid: "uuid ?e (uuid_pos w0) = ''id-''"
    by (simp add: env0_def w0_def)
  have run: "post_api_upload ?e req0 w0 =
      (fst (post_api_upload ?e req0 w0), snd (post_api_upload ?e req0 w0))"
    by simp
  have inv: "map_of (fileMetadata w0) (uuid ?e (uuid_pos w0)) \<noteq> None \<longrightarrow>
      map_of (bucket w0) (''files/'' @ uuid ?e (uuid_pos w0)) \<noteq> None"
    by (simp add: w0_def)
  have failed: "fst (post_api_upload ?e req0 w0) \<noteq>
      Inr \<lparr>status = 200, headers = [],
           body = UploadSuccess ''id-'' ''File uploaded successfully''\<rparr>"
    by (simp add: upload_response req0_simps env0_simps)
  have empty: "fileMetadata w0 = []" by (simp add: w0_def)
  have s3: "fault ?e S3Upload = None" by (simp add: env0_simps)
  from upload_bucket_written [OF req0_simps(1) s3, of w0]
  have blob: "map_of (bucket (snd (post_api_upload ?e req0 w0))) ''files/id-'' \<noteq> None"
    by (auto simp only: fid update_conv') simp
  show ?thesis
    using upload_blob_before_metadata [OF run inv] failed blob
    by (simp only: fid empty) simp
qed

end
